theory Spec2Isabelle
  imports Main "HOL-Library.AList"
begin

section \<open>The eos\_user module: values, dictionaries and errors\<close>

text \<open>
  The module \<^verbatim>\<open>lib/ansible/modules/network/eos/eos_user.py\<close> reconciles the local
  user accounts of an Arista EOS device with a desired set of accounts. The embedding
  follows the Python 2 semantics the module was written for: strings are byte strings,
  \<^verbatim>\<open>\S\<close> excludes the six ASCII whitespace characters, \<^verbatim>\<open>int\<close> accepts an optionally
  signed run of decimal digits, and a number orders before any string.

  The values that occur in the records of the module: \<^verbatim>\<open>None\<close>, booleans, integers
  and strings. Nested lists and dictionaries as field values are outside the model.
\<close>

datatype pyval = PNone | PBool bool | PInt int | PStr string

text \<open>Python truthiness (\<^verbatim>\<open>if value\<close>, \<^verbatim>\<open>not value\<close>, \<^verbatim>\<open>all\<close>).\<close>

fun truthy :: "pyval \<Rightarrow> bool" where
  "truthy PNone = False"
| "truthy (PBool b) = b"
| "truthy (PInt i) = (i \<noteq> 0)"
| "truthy (PStr s) = (s \<noteq> [])"

text \<open>Python \<^verbatim>\<open>==\<close>: \<^verbatim>\<open>bool\<close> is a subclass of \<^verbatim>\<open>int\<close>, so \<^verbatim>\<open>True == 1\<close>.\<close>

fun py_eq :: "pyval \<Rightarrow> pyval \<Rightarrow> bool" where
  "py_eq PNone PNone = True"
| "py_eq (PBool a) (PBool b) = (a = b)"
| "py_eq (PBool a) (PInt i) = (i = (if a then 1 else 0))"
| "py_eq (PInt i) (PBool b) = (i = (if b then 1 else 0))"
| "py_eq (PInt i) (PInt j) = (i = j)"
| "py_eq (PStr s) (PStr t) = (s = t)"
| "py_eq _ _ = False"

text \<open>Decimal rendering of integers, as \<^verbatim>\<open>'%s' % n\<close> prints them.\<close>

definition digit_char :: "nat \<Rightarrow> char" where
  "digit_char d = char_of (48 + d)"

fun show_nat :: "nat \<Rightarrow> string" where
  "show_nat n = (if n < 10 then [digit_char n] else show_nat (n div 10) @ [digit_char (n mod 10)])"

declare show_nat.simps [simp del]

definition show_int :: "int \<Rightarrow> string" where
  "show_int i = (if i < 0 then CHR ''-'' # show_nat (nat (- i)) else show_nat (nat i))"

text \<open>\<^verbatim>\<open>'%s' % value\<close>.\<close>

fun pystr :: "pyval \<Rightarrow> string" where
  "pystr PNone = ''None''"
| "pystr (PBool b) = (if b then ''True'' else ''False'')"
| "pystr (PInt i) = show_int i"
| "pystr (PStr s) = s"

text \<open>
  A dictionary is an association list; the first binding of a key is the one that counts.
  \<^verbatim>\<open>d.get(k)\<close> is \<open>dget\<close>, \<^verbatim>\<open>d[k]\<close> is \<open>map_of d k\<close> with \<open>None\<close> read as
  \<^verbatim>\<open>KeyError\<close>, \<^verbatim>\<open>d[k] = v\<close> is \<open>AList.update\<close>, and \<^verbatim>\<open>iteritems(d)\<close> visits
  each key once.
\<close>

type_synonym pydict = "(string \<times> pyval) list"

definition dget :: "pydict \<Rightarrow> string \<Rightarrow> pyval" where
  "dget d k = (case map_of d k of None \<Rightarrow> PNone | Some v \<Rightarrow> v)"

definition iteritems :: "pydict \<Rightarrow> (string \<times> pyval) list" where
  "iteritems d = AList.clearjunk d"

text \<open>
  What ends a run: \<^verbatim>\<open>module.fail_json(msg=...)\<close> (the fatal, user-visible error),
  or an uncaught Python exception.
\<close>

datatype error =
    FailJson string
  | KeyError string
  | ValueError string
  | TypeError string
  | RegexNotLiteral string

section \<open>Command Renderer\<close>

text \<open>
  The part of the module object the functions read: \<^verbatim>\<open>module.params\<close> after Ansible's
  own argument handling (each parameter typed by \<^verbatim>\<open>argument_spec\<close>, unset ones
  \<^verbatim>\<open>None\<close>), \<^verbatim>\<open>module.check_mode\<close>, \<^verbatim>\<open>module._diff\<close>, and the type checkers
  of \<^verbatim>\<open>module._CHECK_ARGUMENT_TYPES_DISPATCHER\<close>. The checkers are code of
  \<^verbatim>\<open>ansible.module_utils.basic\<close>; they are a parameter here: \<open>check_type t v\<close> is the
  error the checker for type \<open>t\<close> raises on \<open>v\<close>, if any.
\<close>

datatype user_item = Bare pyval | Dict pydict

record params =
  users :: "user_item list option"
  username :: "string option"
  password :: "string option"
  nopassword :: "bool option"
  update_password :: string
  privilege :: "int option"
  role :: "string option"
  sshkey :: "string option"
  purge :: bool
  state :: string

record module =
  params :: params
  check_mode :: bool
  diff_mode :: bool
  check_type :: "string \<Rightarrow> pyval \<Rightarrow> error option"

text \<open>
  The loops of the module append to a list as they go, and an error ends the run with
  the list lost. Each loop body is modelled by what it appends (or the error it raises);
  \<open>seq_append\<close> runs one piece after another: the first error wins, otherwise the
  appended elements follow each other.
\<close>

definition seq_append :: "error + 'a list \<Rightarrow> error + 'a list \<Rightarrow> error + 'a list" where
  "seq_append a b =
     (case a of
        Inl e \<Rightarrow> Inl e
      | Inr xs \<Rightarrow> (case b of Inl e \<Rightarrow> Inl e | Inr ys \<Rightarrow> Inr (xs @ ys)))"

text \<open>\<^verbatim>\<open>needs_update = lambda x: want.get(x) and (want.get(x) != have.get(x))\<close>\<close>

definition needs_update :: "pydict \<Rightarrow> pydict \<Rightarrow> string \<Rightarrow> bool" where
  "needs_update want have x = (truthy (dget want x) \<and> \<not> py_eq (dget want x) (dget have x))"

text \<open>
  \<^verbatim>\<open>add = lambda x: commands.append('username %s %s' % (want['username'], x))\<close>:
  the command that is appended, or the \<^verbatim>\<open>KeyError\<close> of \<^verbatim>\<open>want['username']\<close>.
\<close>

definition add :: "pydict \<Rightarrow> string \<Rightarrow> error + string list" where
  "add want x = (case map_of want ''username'' of
       None \<Rightarrow> Inl (KeyError ''username'')
     | Some u \<Rightarrow> Inr [''username '' @ pystr u @ '' '' @ x])"

text \<open>
  One conditional block of the loop body, \<^verbatim>\<open>if c: add(fmt % want[key])\<close>: when \<open>c\<close>
  holds, the command is formatted from \<^verbatim>\<open>want[key]\<close> and appended.
\<close>

definition emit_if :: "bool \<Rightarrow> pydict \<Rightarrow> string \<Rightarrow> (pyval \<Rightarrow> string) \<Rightarrow> error + string list" where
  "emit_if c want key fmt =
     (if c then
        (case map_of want key of
           None \<Rightarrow> Inl (KeyError key)
         | Some v \<Rightarrow> add want (fmt v))
      else Inr [])"

text \<open>The last block of the loop body, on \<^verbatim>\<open>nopassword\<close>.\<close>

definition emit_nopassword :: "pydict \<Rightarrow> pydict \<Rightarrow> error + string list" where
  "emit_nopassword want have =
     (if needs_update want have ''nopassword'' then
        (case map_of want ''nopassword'' of
           None \<Rightarrow> Inl (KeyError ''nopassword'')
         | Some np \<Rightarrow>
            if truthy np then add want ''nopassword''
            else
              (case map_of want ''username'' of
                 None \<Rightarrow> Inl (KeyError ''username'')
               | Some u \<Rightarrow> add want (''no username '' @ pystr u @ '' nopassword'')))
      else Inr [])"

text \<open>
  The body of the loop of \<^verbatim>\<open>map_obj_to_commands\<close> for one \<^verbatim>\<open>(want, have)\<close> pair:
  the commands it appends. \<open>upd_password\<close> is \<^verbatim>\<open>module.params['update_password']\<close>,
  and \<^verbatim>\<open>not have\<close> holds for the empty dictionary.
\<close>

definition render_update :: "string \<Rightarrow> pydict \<times> pydict \<Rightarrow> error + string list" where
  "render_update upd_password update =
     (case update of (want, have) \<Rightarrow>
        (case map_of want ''state'' of
           None \<Rightarrow> Inl (KeyError ''state'')
         | Some st \<Rightarrow>
            if py_eq st (PStr ''absent'') then
              (case map_of want ''username'' of
                 None \<Rightarrow> Inl (KeyError ''username'')
               | Some u \<Rightarrow> Inr [''no username '' @ pystr u])
            else
              seq_append
                (emit_if (needs_update want have ''role'') want ''role''
                   (\<lambda>v. ''role '' @ pystr v))
             (seq_append
                (emit_if (needs_update want have ''privilege'') want ''privilege''
                   (\<lambda>v. ''privilege '' @ pystr v))
             (seq_append
                (emit_if (needs_update want have ''password''
                          \<and> (upd_password = ''always'' \<or> have = [])) want ''password''
                   (\<lambda>v. ''secret '' @ pystr v))
             (seq_append
                (emit_if (needs_update want have ''sshkey'') want ''sshkey''
                   (\<lambda>v. ''sshkey '' @ pystr v))
                (emit_nopassword want have))))))"

text \<open>The loop \<^verbatim>\<open>for update in updates\<close>.\<close>

fun render_loop :: "string \<Rightarrow> (pydict \<times> pydict) list \<Rightarrow> error + string list" where
  "render_loop up [] = Inr []"
| "render_loop up (update # updates) =
     seq_append (render_update up update) (render_loop up updates)"

definition map_obj_to_commands :: "(pydict \<times> pydict) list \<Rightarrow> module \<Rightarrow> error + string list" where
  "map_obj_to_commands updates m = render_loop (update_password (params m)) updates"

section \<open>Diff Engine\<close>

text \<open>
  \<^verbatim>\<open>next((i for i in have if i['username'] == entry['username']), None)\<close>: the first
  have record with the entry's username. The generator reads \<^verbatim>\<open>i['username']\<close> and then
  \<^verbatim>\<open>entry['username']\<close> for each record it visits, so a missing key is a
  \<^verbatim>\<open>KeyError\<close> only when a record is visited.
\<close>

fun find_item :: "pydict list \<Rightarrow> pydict \<Rightarrow> error + pydict option" where
  "find_item [] entry = Inr None"
| "find_item (i # have) entry =
     (case map_of i ''username'' of
        None \<Rightarrow> Inl (KeyError ''username'')
      | Some iu \<Rightarrow>
         (case map_of entry ''username'' of
            None \<Rightarrow> Inl (KeyError ''username'')
          | Some eu \<Rightarrow> if py_eq iu eu then Inr (Some i) else find_item have entry))"

text \<open>
  The inner loop \<^verbatim>\<open>for key, value in iteritems(entry)\<close>: one more \<^verbatim>\<open>(entry, item)\<close>
  pair for each field whose value is truthy and differs from \<^verbatim>\<open>item[key]\<close>. The
  \<^verbatim>\<open>and\<close> short-circuits, so \<^verbatim>\<open>item[key]\<close> is read for truthy values only.
\<close>

fun field_updates :: "pydict \<Rightarrow> pydict \<Rightarrow> (string \<times> pyval) list
    \<Rightarrow> error + (pydict \<times> pydict) list" where
  "field_updates entry item [] = Inr []"
| "field_updates entry item ((key, val) # kvs) =
     seq_append
       (if truthy val then
          (case map_of item key of
             None \<Rightarrow> Inl (KeyError key)
           | Some iv \<Rightarrow> Inr (if \<not> py_eq val iv then [(entry, item)] else []))
        else Inr [])
       (field_updates entry item kvs)"

text \<open>
  The body of the loop \<^verbatim>\<open>for entry in want\<close>: the pairs it appends. \<^verbatim>\<open>elif item\<close>
  holds for a record that is not the empty dictionary.
\<close>

definition update_entry :: "pydict list \<Rightarrow> pydict \<Rightarrow> error + (pydict \<times> pydict) list" where
  "update_entry have entry =
     (case find_item have entry of
        Inl e \<Rightarrow> Inl e
      | Inr item \<Rightarrow>
         (case map_of entry ''state'' of
            None \<Rightarrow> Inl (KeyError ''state'')
          | Some st \<Rightarrow>
             if item = None \<and> py_eq st (PStr ''present'') then Inr [(entry, [])]
             else (case item of
                     None \<Rightarrow> Inr []
                   | Some i \<Rightarrow>
                      if i \<noteq> [] then field_updates entry i (iteritems entry)
                      else Inr [])))"

fun update_loop :: "pydict list \<Rightarrow> pydict list \<Rightarrow> error + (pydict \<times> pydict) list" where
  "update_loop have [] = Inr []"
| "update_loop have (entry # want) =
     seq_append (update_entry have entry) (update_loop have want)"

definition update_objects :: "pydict list \<Rightarrow> pydict list \<Rightarrow> error + (pydict \<times> pydict) list" where
  "update_objects want have = update_loop have want"

section \<open>Input Normalizer\<close>

text \<open>
  \<^verbatim>\<open>validate_privilege\<close>: \<^verbatim>\<open>if not 1 <= value <= 15: module.fail_json(...)\<close>.
  A boolean compares as 0 or 1; in Python 2 \<^verbatim>\<open>None\<close> orders before every number and a
  string after every number, so both are out of range.
\<close>

definition validate_privilege :: "pyval \<Rightarrow> error option" where
  "validate_privilege v =
     (let in_range = (case v of
            PInt i \<Rightarrow> 1 \<le> i \<and> i \<le> 15
          | PBool b \<Rightarrow> b
          | PNone \<Rightarrow> False
          | PStr s \<Rightarrow> False)
      in if \<not> in_range
         then Some (FailJson (''privilege must be between 1 and 15, got '' @ pystr v))
         else None)"

text \<open>\<^verbatim>\<open>module.params[key]\<close> for the parameters that are field values.\<close>

definition opt_val :: "('a \<Rightarrow> pyval) \<Rightarrow> 'a option \<Rightarrow> pyval" where
  "opt_val f x = (case x of None \<Rightarrow> PNone | Some a \<Rightarrow> f a)"

definition param :: "params \<Rightarrow> string \<Rightarrow> error + pyval" where
  "param p key =
     (if key = ''username'' then Inr (opt_val PStr (username p))
      else if key = ''password'' then Inr (opt_val PStr (password p))
      else if key = ''nopassword'' then Inr (opt_val PBool (nopassword p))
      else if key = ''update_password'' then Inr (PStr (update_password p))
      else if key = ''privilege'' then Inr (opt_val PInt (privilege p))
      else if key = ''role'' then Inr (opt_val PStr (role p))
      else if key = ''sshkey'' then Inr (opt_val PStr (sshkey p))
      else if key = ''purge'' then Inr (PBool (purge p))
      else if key = ''state'' then Inr (PStr (state p))
      else Inl (KeyError key))"

text \<open>\<^verbatim>\<open>module.argument_spec[key].get('type', 'str')\<close>, from the table in \<^verbatim>\<open>main\<close>.\<close>

definition argument_type :: "string \<Rightarrow> string" where
  "argument_type key =
     (if key = ''users'' then ''list''
      else if key = ''nopassword'' \<or> key = ''purge'' then ''bool''
      else if key = ''privilege'' then ''int''
      else ''str'')"

text \<open>
  \<^verbatim>\<open>globals().get('validate_%s' % key)\<close>: the module defines \<^verbatim>\<open>validate_privilege\<close>
  and no other validator.
\<close>

definition validator :: "string \<Rightarrow> (pyval \<Rightarrow> error option) option" where
  "validator key = (if key = ''privilege'' then Some validate_privilege else None)"

definition get_param_value :: "string \<Rightarrow> pydict \<Rightarrow> module \<Rightarrow> error + pyval" where
  "get_param_value key item m =
     (case (if \<not> truthy (dget item key) then param (params m) key
            else (case map_of item key of
                    None \<Rightarrow> Inl (KeyError key)
                  | Some v \<Rightarrow>
                     (case check_type m (argument_type key) v of
                        Some e \<Rightarrow> Inl e
                      | None \<Rightarrow> Inr v))) of
        Inl e \<Rightarrow> Inl e
      | Inr val \<Rightarrow>
         (case validator key of
            None \<Rightarrow> Inr val
          | Some validate \<Rightarrow>
             if truthy val then (case validate val of Some e \<Rightarrow> Inl e | None \<Rightarrow> Inr val)
             else Inr val))"

text \<open>
  The six assignments \<^verbatim>\<open>item[key] = get_value(key)\<close>, in the order of the source:
  password, nopassword, privilege, role, sshkey, state.
\<close>

fun fill_fields :: "module \<Rightarrow> string list \<Rightarrow> pydict \<Rightarrow> error + pydict" where
  "fill_fields m [] item = Inr item"
| "fill_fields m (key # keys) item =
     (case get_param_value key item m of
        Inl e \<Rightarrow> Inl e
      | Inr v \<Rightarrow> fill_fields m keys (AList.update key v item))"

definition field_keys :: "string list" where
  "field_keys = [''password'', ''nopassword'', ''privilege'', ''role'', ''sshkey'', ''state'']"

text \<open>The loop over \<^verbatim>\<open>users\<close> that builds \<^verbatim>\<open>collection\<close>.\<close>

fun collect_users :: "user_item list \<Rightarrow> error + pydict list" where
  "collect_users [] = Inr []"
| "collect_users (Bare v # items) =
     seq_append (Inr [[(''username'', v)]]) (collect_users items)"
| "collect_users (Dict d # items) =
     seq_append
       (if map_of d ''username'' = None then Inl (FailJson ''username is required'')
        else Inr [d])
       (collect_users items)"

text \<open>The loop \<^verbatim>\<open>for item in collection\<close> that builds \<^verbatim>\<open>objects\<close>.\<close>

fun fill_loop :: "module \<Rightarrow> pydict list \<Rightarrow> error + pydict list" where
  "fill_loop m [] = Inr []"
| "fill_loop m (item # collection) =
     seq_append
       (case fill_fields m field_keys item of Inl e \<Rightarrow> Inl e | Inr item' \<Rightarrow> Inr [item'])
       (fill_loop m collection)"

definition map_params_to_obj :: "module \<Rightarrow> error + pydict list" where
  "map_params_to_obj m =
     (let p = params m;
          no_username = (case username p of None \<Rightarrow> True | Some u \<Rightarrow> u = []);
          no_users =
            (if no_username \<and> purge p then Inr []
             else if no_username then Inl (FailJson ''username is required'')
             else fill_loop m [[(''username'', opt_val PStr (username p))]])
      in case users p of
           None \<Rightarrow> no_users
         | Some [] \<Rightarrow> no_users
         | Some (u # us) \<Rightarrow>
            (case collect_users (u # us) of
               Inl e \<Rightarrow> Inl e
             | Inr collection \<Rightarrow> fill_loop m collection))"

section \<open>Record Parser\<close>

text \<open>
  The regular expressions of the parser, written out as string functions. Lines are the
  pieces of the text between newline characters: with \<^verbatim>\<open>re.M\<close>, \<^verbatim>\<open>^\<close> matches at
  the start of the text and after each newline, \<^verbatim>\<open>$\<close> before each newline and at the
  end, and \<^verbatim>\<open>.\<close> matches every character but the newline.
\<close>

definition newline :: char where
  "newline = CHR 0x0A"

definition is_space :: "char \<Rightarrow> bool" where
  "is_space c = (c \<in> set [CHR '' '', CHR 0x09, CHR 0x0A, CHR 0x0B, CHR 0x0C, CHR 0x0D])"

fun split_lines :: "string \<Rightarrow> string list" where
  "split_lines [] = [[]]"
| "split_lines (c # cs) =
     (if c = newline then [] # split_lines cs
      else (case split_lines cs of
              [] \<Rightarrow> [[c]]
            | l # ls \<Rightarrow> (c # l) # ls))"

fun join_lines :: "string list \<Rightarrow> string" where
  "join_lines [] = []"
| "join_lines [l] = l"
| "join_lines (l # l' # ls) = l @ [newline] @ join_lines (l' # ls)"

fun strip_prefix :: "string \<Rightarrow> string \<Rightarrow> string option" where
  "strip_prefix [] s = Some s"
| "strip_prefix (p # ps) [] = None"
| "strip_prefix (p # ps) (c # cs) = (if p = c then strip_prefix ps cs else None)"

text \<open>The group \<^verbatim>\<open>(\S+)\<close> at the start of \<open>s\<close>: the longest run of non-space characters.\<close>

definition token :: "string \<Rightarrow> string" where
  "token s = takeWhile (\<lambda>c. \<not> is_space c) s"

text \<open>The group \<^verbatim>\<open>(.+)$\<close> at the start of \<open>s\<close>: the rest of the line.\<close>

definition rest_of_line :: "string \<Rightarrow> string" where
  "rest_of_line s = takeWhile (\<lambda>c. c \<noteq> newline) s"

text \<open>
  \<^verbatim>\<open>re.search(kw + group, data)\<close>: the group of the leftmost position where the
  keyword is followed by a non-empty group.
\<close>

fun re_search :: "string \<Rightarrow> (string \<Rightarrow> string) \<Rightarrow> string \<Rightarrow> string option" where
  "re_search kw grp [] = None"
| "re_search kw grp (c # cs) =
     (case strip_prefix kw (c # cs) of
        None \<Rightarrow> re_search kw grp cs
      | Some rest \<Rightarrow> if grp rest \<noteq> [] then Some (grp rest) else re_search kw grp cs)"

definition parse_role :: "string \<Rightarrow> pyval" where
  "parse_role data = (case re_search ''role '' token data of None \<Rightarrow> PNone | Some r \<Rightarrow> PStr r)"

definition parse_sshkey :: "string \<Rightarrow> pyval" where
  "parse_sshkey data =
     (case re_search ''sshkey '' rest_of_line data of None \<Rightarrow> PNone | Some k \<Rightarrow> PStr k)"

text \<open>
  \<^verbatim>\<open>int(s)\<close> on a string without whitespace: an optional sign and one or more decimal
  digits, anything else is a \<^verbatim>\<open>ValueError\<close> (here \<open>None\<close>).
\<close>

definition is_digit :: "char \<Rightarrow> bool" where
  "is_digit c = (48 \<le> (of_char c :: nat) \<and> (of_char c :: nat) \<le> 57)"

fun digits_val :: "string \<Rightarrow> nat \<Rightarrow> nat" where
  "digits_val [] acc = acc"
| "digits_val (c # cs) acc = digits_val cs (10 * acc + (of_char c - 48))"

definition py_int :: "string \<Rightarrow> int option" where
  "py_int s =
     (let (neg, ds) = (case s of
                         [] \<Rightarrow> (False, [])
                       | c # cs \<Rightarrow> if c = CHR ''-'' then (True, cs)
                                  else if c = CHR ''+'' then (False, cs)
                                  else (False, s))
      in if ds \<noteq> [] \<and> list_all is_digit ds
         then Some (if neg then - int (digits_val ds 0) else int (digits_val ds 0))
         else None)"

definition parse_privilege :: "string \<Rightarrow> error + pyval" where
  "parse_privilege data =
     (case re_search ''privilege '' token data of
        None \<Rightarrow> Inr PNone
      | Some t \<Rightarrow>
         (case py_int t of
            None \<Rightarrow> Inl (ValueError (''invalid literal for int() with base 10: ''
                             @ [CHR 0x27] @ t @ [CHR 0x27]))
          | Some i \<Rightarrow> Inr (PInt i)))"

text \<open>\<^verbatim>\<open>re.findall(r'^username (\S+)', data, re.M)\<close>: at most one hit per line.\<close>

definition line_username :: "string \<Rightarrow> string list" where
  "line_username line =
     (case strip_prefix ''username '' line of
        None \<Rightarrow> []
      | Some rest \<Rightarrow> if token rest = [] then [] else [token rest])"

definition findall_usernames :: "string \<Rightarrow> string list" where
  "findall_usernames data = concat (map line_username (split_lines data))"

text \<open>
  \<^verbatim>\<open>re.findall(r'username %s .+$' % user, data, re.M)\<close>. The user name is pasted into
  the pattern unescaped. The model covers the names in which no character is special in a
  regular expression, where the pattern matches the name literally; for any other name
  the parse ends in \<open>RegexNotLiteral\<close>, which stands for whatever the pattern compiled
  from that name does (a different match, or \<^verbatim>\<open>re.error\<close>).

  In a line, the match starts at the leftmost occurrence of \<^verbatim>\<open>username <user> \<close> that
  is followed by at least one character, and runs to the end of the line.
\<close>

definition regex_special :: "char list" where
  "regex_special = [CHR ''.'', CHR ''^'', CHR ''$'', CHR ''*'', CHR ''+'', CHR ''?'',
     CHR ''{'', CHR ''}'', CHR ''['', CHR '']'', CHR 0x5C, CHR ''|'', CHR ''('', CHR '')'']"

definition regex_literal :: "string \<Rightarrow> bool" where
  "regex_literal user = list_all (\<lambda>c. c \<notin> set regex_special) user"

fun match_in_line :: "string \<Rightarrow> string \<Rightarrow> string option" where
  "match_in_line pat [] = None"
| "match_in_line pat (c # cs) =
     (case strip_prefix pat (c # cs) of
        None \<Rightarrow> match_in_line pat cs
      | Some rest \<Rightarrow> if rest \<noteq> [] then Some (c # cs) else match_in_line pat cs)"

definition findall_user_lines :: "string \<Rightarrow> string \<Rightarrow> string list" where
  "findall_user_lines user data =
     List.map_filter (match_in_line (''username '' @ user @ '' '')) (split_lines data)"

text \<open>\<^verbatim>\<open>cfg = '\n'.join(cfg)\<close>\<close>

definition user_cfg :: "string \<Rightarrow> string \<Rightarrow> string" where
  "user_cfg user data = join_lines (findall_user_lines user data)"

text \<open>\<^verbatim>\<open>sub in s\<close> on strings.\<close>

fun py_in :: "string \<Rightarrow> string \<Rightarrow> bool" where
  "py_in sub [] = (sub = [])"
| "py_in sub (c # cs) = (strip_prefix sub (c # cs) \<noteq> None \<or> py_in sub cs)"

text \<open>The body of the loop \<^verbatim>\<open>for user in set(match)\<close>: the record of one user.\<close>

definition parse_user :: "string \<Rightarrow> string \<Rightarrow> error + pydict" where
  "parse_user data user =
     (if \<not> regex_literal user then Inl (RegexNotLiteral user)
      else
        (let cfg = user_cfg user data in
         case parse_privilege cfg of
           Inl e \<Rightarrow> Inl e
         | Inr priv \<Rightarrow>
            Inr [(''username'', PStr user),
                 (''state'', PStr ''present''),
                 (''nopassword'', PBool (py_in ''nopassword'' cfg)),
                 (''password'', PNone),
                 (''sshkey'', parse_sshkey cfg),
                 (''privilege'', priv),
                 (''role'', parse_role cfg)]))"

fun parse_loop :: "string \<Rightarrow> string list \<Rightarrow> error + pydict list" where
  "parse_loop data [] = Inr []"
| "parse_loop data (user # rest) =
     seq_append
       (case parse_user data user of Inl e \<Rightarrow> Inl e | Inr obj \<Rightarrow> Inr [obj])
       (parse_loop data rest)"

text \<open>
  \<open>data\<close> is what \<^verbatim>\<open>get_config(module, flags=['section username'])\<close> returned.
  \<^verbatim>\<open>set(match)\<close> is iterated in the order \<open>remdups\<close> leaves; Python fixes no order.
\<close>

definition map_config_to_obj :: "string \<Rightarrow> error + pydict list" where
  "map_config_to_obj data =
     (let match = findall_usernames data in
      if match = [] then Inr []
      else parse_loop data (remdups match))"

section \<open>Purge Resolver and main\<close>

text \<open>\<^verbatim>\<open>[x['username'] for x in records]\<close>\<close>

fun usernames_of :: "pydict list \<Rightarrow> error + pyval list" where
  "usernames_of [] = Inr []"
| "usernames_of (x # xs) =
     (case map_of x ''username'' of
        None \<Rightarrow> Inl (KeyError ''username'')
      | Some u \<Rightarrow> (case usernames_of xs of Inl e \<Rightarrow> Inl e | Inr us \<Rightarrow> Inr (u # us)))"

definition py_member :: "pyval \<Rightarrow> pyval list \<Rightarrow> bool" where
  "py_member x xs = list_ex (py_eq x) xs"

text \<open>\<^verbatim>\<open>set(xs)\<close>: one element of each class of equal values, in order of first occurrence.\<close>

fun py_set :: "pyval list \<Rightarrow> pyval list \<Rightarrow> pyval list" where
  "py_set [] seen = seen"
| "py_set (x # xs) seen = py_set xs (if py_member x seen then seen else seen @ [x])"

text \<open>The loop \<^verbatim>\<open>for item in set(have_users).difference(want_users)\<close>.\<close>

fun purge_loop :: "pyval list \<Rightarrow> string list" where
  "purge_loop [] = []"
| "purge_loop (item # items) =
     (if \<not> py_eq item (PStr ''admin'') then [''no username '' @ pystr item] else [])
     @ purge_loop items"

text \<open>The commands the purge block of \<^verbatim>\<open>main\<close> appends.\<close>

definition purge_commands :: "pydict list \<Rightarrow> pydict list \<Rightarrow> error + string list" where
  "purge_commands want have =
     (case usernames_of want of
        Inl e \<Rightarrow> Inl e
      | Inr want_users \<Rightarrow>
         (case usernames_of have of
            Inl e \<Rightarrow> Inl e
          | Inr have_users \<Rightarrow>
             Inr (purge_loop
                    (filter (\<lambda>u. \<not> py_member u want_users) (py_set have_users [])))))"

text \<open>
  The command list of \<^verbatim>\<open>main\<close>, as it stands when \<^verbatim>\<open>result['commands']\<close> is
  assigned: the reconcile commands, then the purge commands when purge is on.
\<close>

definition reconcile :: "pydict list \<Rightarrow> pydict list \<Rightarrow> module \<Rightarrow> error + string list" where
  "reconcile want have m =
     (case update_objects want have of
        Inl e \<Rightarrow> Inl e
      | Inr updates \<Rightarrow> map_obj_to_commands updates m)"

definition main_commands :: "module \<Rightarrow> pydict list \<Rightarrow> pydict list \<Rightarrow> error + string list" where
  "main_commands m want have =
     (case reconcile want have m of
        Inl e \<Rightarrow> Inl e
      | Inr cmds \<Rightarrow>
         if purge (params m) then seq_append (Inr cmds) (purge_commands want have)
         else Inr cmds)"

text \<open>
  The two collaborators: \<^verbatim>\<open>get_config\<close> returns the text \<open>config\<close>, and
  \<^verbatim>\<open>load_config\<close> returns the dictionary \<open>response\<close>. A run of \<^verbatim>\<open>main\<close> yields the
  calls it made to them, in order, and how it ended: \<^verbatim>\<open>exit_json\<close> with the result,
  or an error.
\<close>

record env =
  config :: string
  response :: pydict

datatype event = GetConfig | LoadConfig "string list" bool

record result =
  changed :: bool
  commands :: "string list"
  diff_prepared :: "pyval option"
  session_name :: "pyval option"

definition main :: "module \<Rightarrow> env \<Rightarrow> event list \<times> (error + result)" where
  "main m e =
     (case map_params_to_obj m of
        Inl err \<Rightarrow> ([], Inl err)
      | Inr want \<Rightarrow>
     (case map_config_to_obj (config e) of
        Inl err \<Rightarrow> ([GetConfig], Inl err)
      | Inr have \<Rightarrow>
     (case main_commands m want have of
        Inl err \<Rightarrow> ([GetConfig], Inl err)
      | Inr cmds \<Rightarrow>
         if ''no username admin'' \<in> set cmds then
           ([GetConfig], Inl (FailJson ''cannot delete the `admin` account''))
         else if cmds \<noteq> [] then
           ([GetConfig, LoadConfig cmds (\<not> check_mode m)],
            Inr \<lparr>changed = True, commands = cmds,
                 diff_prepared = (if truthy (dget (response e) ''diff'') \<and> diff_mode m
                                  then Some (dget (response e) ''diff'') else None),
                 session_name = Some (dget (response e) ''session'')\<rparr>)
         else
           ([GetConfig],
            Inr \<lparr>changed = False, commands = cmds,
                 diff_prepared = None, session_name = None\<rparr>))))"

section \<open>The shape of the records\<close>

text \<open>
  Both kinds of record carry the seven fields of the dictionary that
  \<^verbatim>\<open>map_config_to_obj\<close> builds; \<^verbatim>\<open>map_params_to_obj\<close> assigns the same fields to
  every item. A want record in which no other key occurs is a \<open>want_record\<close>. A
  \<open>have_record\<close> is what the parser builds: all fields, \<^verbatim>\<open>state\<close> always
  \<^verbatim>\<open>present\<close> and \<^verbatim>\<open>password\<close> always \<^verbatim>\<open>None\<close>.
\<close>

definition record_keys :: "string list" where
  "record_keys = [''username'', ''state'', ''nopassword'', ''password'', ''sshkey'',
     ''privilege'', ''role'']"

definition has_fields :: "pydict \<Rightarrow> bool" where
  "has_fields r = list_all (\<lambda>k. map_of r k \<noteq> None) record_keys"

definition want_record :: "pydict \<Rightarrow> bool" where
  "want_record r = (has_fields r \<and> list_all (\<lambda>k. k \<in> set record_keys) (map fst r))"

definition have_record :: "pydict \<Rightarrow> bool" where
  "have_record r = (has_fields r \<and> map_of r ''state'' = Some (PStr ''present'')
     \<and> map_of r ''password'' = Some PNone)"

text \<open>
  The state a reconcile pass leaves behind, seen from the next pass: the have list is in
  sync with a want record when the record's commands have taken effect. A record that is
  not to be \<^verbatim>\<open>present\<close> has no have record; a \<^verbatim>\<open>present\<close> one either has a have
  record that agrees with it on every non-empty field but the password (which the device
  never shows), or has none and sets none of the five fields that make a command.
\<close>

definition in_sync :: "pydict list \<Rightarrow> pydict \<Rightarrow> bool" where
  "in_sync have e =
     (case map_of e ''username'' of
        None \<Rightarrow> False
      | Some u \<Rightarrow>
     (case map_of e ''state'' of
        None \<Rightarrow> False
      | Some st \<Rightarrow>
     (case find_item have e of
        Inl err \<Rightarrow> False
      | Inr None \<Rightarrow>
          \<not> py_eq st (PStr ''present'') \<or>
          list_all (\<lambda>k. \<not> truthy (dget e k))
            [''role'', ''privilege'', ''password'', ''sshkey'', ''nopassword'']
      | Inr (Some item) \<Rightarrow>
          \<not> py_eq st (PStr ''absent'') \<and>
          list_all (\<lambda>kv. \<not> truthy (snd kv) \<or>
                      (case map_of item (fst kv) of
                         None \<Rightarrow> False
                       | Some iv \<Rightarrow> fst kv = ''password'' \<or> py_eq (snd kv) iv)) e)))"

section \<open>Sequencing\<close>

lemma seq_append_simps [simp]:
  "seq_append (Inl e) b = Inl e"
  "seq_append (Inr xs) (Inl e) = Inl e"
  "seq_append (Inr xs) (Inr ys) = Inr (xs @ ys)"
  by (simp_all add: seq_append_def)

lemma seq_append_Inr_iff:
  "seq_append a b = Inr zs \<longleftrightarrow> (\<exists>xs ys. a = Inr xs \<and> b = Inr ys \<and> zs = xs @ ys)"
  by (cases a; cases b) auto

section \<open>Properties of the Input Normalizer\<close>

text \<open>
  C8. Empty-input handling: when neither the single user name nor the list of users is
  supplied (each \<^verbatim>\<open>None\<close> or empty), normalization fails with the fatal error
  \<^verbatim>\<open>username is required\<close> if purge is off, and returns the empty want list if purge
  is on.
\<close>

theorem empty_input_handling:
  "(users (params m) = None \<or> users (params m) = Some []) \<Longrightarrow>
   (username (params m) = None \<or> username (params m) = Some []) \<Longrightarrow>
   map_params_to_obj m =
     (if purge (params m) then Inr [] else Inl (FailJson ''username is required''))"
  by (auto simp: map_params_to_obj_def Let_def)

theorem empty_input_handling_witness:
  "map_params_to_obj \<lparr>params = \<lparr>users = None, username = None, password = None,
       nopassword = None, update_password = ''always'', privilege = None, role = None,
       sshkey = None, purge = False, state = ''present''\<rparr>,
     check_mode = False, diff_mode = False, check_type = (\<lambda>t v. None)\<rparr>
   = Inl (FailJson ''username is required'')"
  using empty_input_handling [of "\<lparr>params = \<lparr>users = None, username = None, password = None,
       nopassword = None, update_password = ''always'', privilege = None, role = None,
       sshkey = None, purge = False, state = ''present''\<rparr>,
     check_mode = False, diff_mode = False, check_type = (\<lambda>t v. None)\<rparr>"]
  by simp

text \<open>
  When the value an item gives for a key is falsy, \<^verbatim>\<open>get_param_value\<close> takes the
  module parameter instead and reaches the validator with that.
\<close>

lemma get_param_value_falsy:
  "\<not> truthy (dget item key) \<Longrightarrow>
   get_param_value key item m =
     (case param (params m) key of
        Inl e \<Rightarrow> Inl e
      | Inr d \<Rightarrow> if key = ''privilege'' \<and> truthy d
                 then (case validate_privilege d of Some e \<Rightarrow> Inl e | None \<Rightarrow> Inr d)
                 else Inr d)"
  by (auto simp: get_param_value_def validator_def split: sum.splits option.splits)

text \<open>
  C9. Falsy values are treated as unset during normalization. For a field whose explicit
  value in the item is falsy (\<^verbatim>\<open>False\<close>, \<^verbatim>\<open>0\<close>, the empty string), the result is
  the one for an item without the field, whatever the type checker is (the type check is
  skipped); a falsy value that comes out of the defaulting is returned without running a
  validator; so an explicit privilege of 0, with no module-wide privilege, passes as
  \<^verbatim>\<open>None\<close> without the out-of-range error.
\<close>

theorem falsy_values_are_unset:
  "(\<not> truthy (dget item key) \<longrightarrow>
      get_param_value key item m = get_param_value key [] (m\<lparr>check_type := ct\<rparr>)) \<and>
   (\<not> truthy (dget item key) \<and> param (params m) key = Inr d \<and> \<not> truthy d \<longrightarrow>
      get_param_value key item m = Inr d) \<and>
   (map_of item ''privilege'' = Some (PInt 0) \<and> privilege (params m) = None \<longrightarrow>
      get_param_value ''privilege'' item m = Inr PNone)"
  by (auto simp: get_param_value_falsy dget_def param_def opt_val_def split: sum.splits)

theorem falsy_values_are_unset_witness:
  "get_param_value ''privilege'' [(''username'', PStr ''bob''), (''privilege'', PInt 0)]
     \<lparr>params = \<lparr>users = None, username = None, password = None,
        nopassword = None, update_password = ''always'', privilege = None, role = None,
        sshkey = None, purge = False, state = ''present''\<rparr>,
      check_mode = False, diff_mode = False,
      check_type = (\<lambda>t v. Some (TypeError ''rejected''))\<rparr>
   = Inr PNone"
proof -
  let ?item = "[(''username'', PStr ''bob''), (''privilege'', PInt 0)]"
  let ?m = "\<lparr>params = \<lparr>users = None, username = None, password = None,
        nopassword = None, update_password = ''always'', privilege = None, role = None,
        sshkey = None, purge = False, state = ''present''\<rparr>,
      check_mode = False, diff_mode = False,
      check_type = (\<lambda>t v. Some (TypeError ''rejected''))\<rparr>"
  have hyps: "\<not> truthy (dget ?item ''privilege'')"
    "param (params ?m) ''privilege'' = Inr PNone" "\<not> truthy PNone"
    "map_of ?item ''privilege'' = Some (PInt 0)" "privilege (params ?m) = None"
    by (simp_all add: dget_def param_def opt_val_def)
  from hyps falsy_values_are_unset [of ?item "''privilege''" ?m "\<lambda>t v. None" PNone]
  show ?thesis by blast
qed

text \<open>
  Privilege bounds, where they hold: a non-zero privilege outside 1..15 is a fatal error
  that names the value, and a privilege inside 1..15 is returned unchanged.
\<close>

lemma privilege_out_of_range_fails:
  "\<not> truthy (dget item ''privilege'') \<Longrightarrow> privilege (params m) = Some v \<Longrightarrow>
   v \<noteq> 0 \<Longrightarrow> v < 1 \<or> 15 < v \<Longrightarrow>
   get_param_value ''privilege'' item m =
     Inl (FailJson (''privilege must be between 1 and 15, got '' @ show_int v))"
  by (auto simp: get_param_value_falsy param_def opt_val_def validate_privilege_def)

lemma privilege_in_range_passes:
  "\<not> truthy (dget item ''privilege'') \<Longrightarrow> privilege (params m) = Some v \<Longrightarrow>
   1 \<le> v \<Longrightarrow> v \<le> 15 \<Longrightarrow>
   get_param_value ''privilege'' item m = Inr (PInt v)"
  by (auto simp: get_param_value_falsy param_def opt_val_def validate_privilege_def)

text \<open>
  C6. Privilege bounds. The claim asks for a fatal error on every privilege outside
  1..15. The privilege 0 is outside, and normalization accepts it: the want record
  carries the privilege 0 and no error is raised.
\<close>

theorem privilege_zero_is_accepted:
  "map_params_to_obj \<lparr>params = \<lparr>users = None, username = Some ''bob'', password = None,
       nopassword = None, update_password = ''always'', privilege = Some 0, role = None,
       sshkey = None, purge = False, state = ''present''\<rparr>,
     check_mode = False, diff_mode = False, check_type = (\<lambda>t v. None)\<rparr>
   = Inr [[(''username'', PStr ''bob''), (''password'', PNone), (''nopassword'', PNone),
           (''privilege'', PInt 0), (''role'', PNone), (''sshkey'', PNone),
           (''state'', PStr ''present'')]]"
  by (simp add: map_params_to_obj_def field_keys_def get_param_value_def dget_def param_def
      opt_val_def validator_def)

section \<open>Properties of the Command Renderer\<close>

lemma seq_append_Nil [simp]: "seq_append (Inr []) b = b" "seq_append a (Inr []) = a"
  by (cases b; simp) (cases a; simp)

lemma seq_append_assoc: "seq_append (seq_append a b) c = seq_append a (seq_append b c)"
  by (cases a; cases b; cases c) auto

lemma add_cases:
  "map_of w ''username'' = Some u \<Longrightarrow> add w x = Inr [''username '' @ pystr u @ '' '' @ x]"
  by (simp add: add_def)

lemma emit_if_Some:
  "map_of w ''username'' = Some u \<Longrightarrow>
   emit_if c w k f =
     (if c then (case map_of w k of None \<Rightarrow> Inl (KeyError k)
                 | Some v \<Rightarrow> Inr [''username '' @ pystr u @ '' '' @ f v])
      else Inr [])"
  by (simp add: emit_if_def add_def split: option.splits)

lemma needs_update_key: "needs_update w h k \<Longrightarrow> \<exists>v. map_of w k = Some v \<and> truthy v"
  by (auto simp: needs_update_def dget_def split: option.splits)

lemma emit_if_needs:
  "map_of w ''username'' = Some u \<Longrightarrow>
   emit_if (needs_update w h k \<and> c) w k f =
     Inr (if needs_update w h k \<and> c then [''username '' @ pystr u @ '' '' @ f (dget w k)] else [])"
  by (auto simp: emit_if_Some dget_def dest: needs_update_key)

lemma emit_if_needs':
  "map_of w ''username'' = Some u \<Longrightarrow>
   emit_if (needs_update w h k) w k f =
     Inr (if needs_update w h k then [''username '' @ pystr u @ '' '' @ f (dget w k)] else [])"
  using emit_if_needs [of w u h k True f] by simp

lemma emit_nopassword_Some:
  "map_of w ''username'' = Some u \<Longrightarrow>
   emit_nopassword w h =
     Inr (if needs_update w h ''nopassword'' then [''username '' @ pystr u @ '' nopassword''] else [])"
  by (auto simp: emit_nopassword_def add_def needs_update_def dget_def split: option.splits)

lemma render_update_present:
  assumes "map_of w ''username'' = Some u" "map_of w ''state'' = Some st"
    "\<not> py_eq st (PStr ''absent'')"
  shows "render_update up (w, h) = Inr (
     (if needs_update w h ''role'' then [''username '' @ pystr u @ '' role '' @ pystr (dget w ''role'')] else []) @
     (if needs_update w h ''privilege'' then [''username '' @ pystr u @ '' privilege '' @ pystr (dget w ''privilege'')] else []) @
     (if needs_update w h ''password'' \<and> (up = ''always'' \<or> h = []) then [''username '' @ pystr u @ '' secret '' @ pystr (dget w ''password'')] else []) @
     (if needs_update w h ''sshkey'' then [''username '' @ pystr u @ '' sshkey '' @ pystr (dget w ''sshkey'')] else []) @
     (if needs_update w h ''nopassword'' then [''username '' @ pystr u @ '' nopassword''] else []))"
  using assms
  by (simp add: render_update_def emit_if_needs emit_if_needs' emit_nopassword_Some del: append_assoc)

lemma render_update_absent:
  "map_of w ''username'' = Some u \<Longrightarrow> map_of w ''state'' = Some st \<Longrightarrow>
   py_eq st (PStr ''absent'') \<Longrightarrow> render_update up (w, h) = Inr [''no username '' @ pystr u]"
  by (simp add: render_update_def)

lemma render_update_total:
  "map_of w ''username'' = Some u \<Longrightarrow> map_of w ''state'' = Some st \<Longrightarrow>
   \<exists>cs. render_update up (w, h) = Inr cs"
  by (cases "py_eq st (PStr ''absent'')") (simp_all add: render_update_present render_update_absent)

text \<open>
  C5 (amended). Password update policy, for a want record with state \<^verbatim>\<open>present\<close> and
  a set password, against a have record whose password is \<^verbatim>\<open>None\<close> (as every parsed
  record's is) or against the empty record of a brand-new account: the renderer returns,
  and its commands contain \<^verbatim>\<open>username <name> secret <password>\<close> if and only if the
  policy is \<^verbatim>\<open>always\<close> or the have record is empty. So an existing account gets the
  command under \<^verbatim>\<open>always\<close> and not under \<^verbatim>\<open>on_create\<close>, and a new account gets
  it under either policy.
\<close>

theorem password_policy:
  assumes "map_of want ''username'' = Some u"
    and "map_of want ''state'' = Some (PStr ''present'')"
    and "map_of want ''password'' = Some p" and "truthy p"
    and "dget have ''password'' = PNone"
  shows "\<exists>cs. map_obj_to_commands [(want, have)] m = Inr cs \<and>
     ((''username '' @ pystr u @ '' secret '' @ pystr p) \<in> set cs
        \<longleftrightarrow> (update_password (params m) = ''always'' \<or> have = []))"
proof -
  have nu: "needs_update want have ''password''"
    using assms by (cases p) (simp_all add: needs_update_def dget_def)
  have p: "dget want ''password'' = p" using assms by (simp add: dget_def)
  show ?thesis
    using assms(1,2) nu p
    by (simp add: map_obj_to_commands_def render_update_present)
qed


theorem password_policy_witness:
  "\<exists>cs. map_obj_to_commands
       [([(''username'', PStr ''bob''), (''password'', PStr ''pw''), (''nopassword'', PNone),
          (''privilege'', PNone), (''role'', PNone), (''sshkey'', PNone),
          (''state'', PStr ''present'')],
         [(''username'', PStr ''bob''), (''state'', PStr ''present''),
          (''nopassword'', PBool False), (''password'', PNone), (''sshkey'', PNone),
          (''privilege'', PNone), (''role'', PNone)])]
       \<lparr>params = \<lparr>users = None, username = Some ''bob'', password = Some ''pw'',
          nopassword = None, update_password = ''on_create'', privilege = None, role = None,
          sshkey = None, purge = False, state = ''present''\<rparr>,
        check_mode = False, diff_mode = False, check_type = (\<lambda>t v. None)\<rparr> = Inr cs
     \<and> ''username bob secret pw'' \<notin> set cs"
  using password_policy [of
       "[(''username'', PStr ''bob''), (''password'', PStr ''pw''), (''nopassword'', PNone),
          (''privilege'', PNone), (''role'', PNone), (''sshkey'', PNone),
          (''state'', PStr ''present'')]" "PStr ''bob''" "PStr ''pw''"
       "[(''username'', PStr ''bob''), (''state'', PStr ''present''),
          (''nopassword'', PBool False), (''password'', PNone), (''sshkey'', PNone),
          (''privilege'', PNone), (''role'', PNone)]"
       "\<lparr>params = \<lparr>users = None, username = Some ''bob'', password = Some ''pw'',
          nopassword = None, update_password = ''on_create'', privilege = None, role = None,
          sshkey = None, purge = False, state = ''present''\<rparr>,
        check_mode = False, diff_mode = False, check_type = (\<lambda>t v. None)\<rparr>"]
  by (simp add: dget_def)


text \<open>
  The claim C5 as stated fails for a want record with state \<^verbatim>\<open>absent\<close>: with a set
  password, an existing account and the policy \<^verbatim>\<open>always\<close>, the renderer emits the
  removal command and no \<^verbatim>\<open>secret\<close> command.
\<close>

theorem password_policy_counterexample:
  "update_password (params
       \<lparr>params = \<lparr>users = None, username = Some ''bob'', password = Some ''pw'',
          nopassword = None, update_password = ''always'', privilege = None, role = None,
          sshkey = None, purge = False, state = ''absent''\<rparr>,
        check_mode = False, diff_mode = False, check_type = (\<lambda>t v. None)\<rparr>) = ''always''
   \<and> map_obj_to_commands
       [([(''username'', PStr ''bob''), (''password'', PStr ''pw''), (''nopassword'', PNone),
          (''privilege'', PNone), (''role'', PNone), (''sshkey'', PNone),
          (''state'', PStr ''absent'')],
         [(''username'', PStr ''bob''), (''state'', PStr ''present''),
          (''nopassword'', PBool False), (''password'', PNone), (''sshkey'', PNone),
          (''privilege'', PNone), (''role'', PNone)])]
       \<lparr>params = \<lparr>users = None, username = Some ''bob'', password = Some ''pw'',
          nopassword = None, update_password = ''always'', privilege = None, role = None,
          sshkey = None, purge = False, state = ''absent''\<rparr>,
        check_mode = False, diff_mode = False, check_type = (\<lambda>t v. None)\<rparr>
     = Inr [''no username bob'']"
  by (simp add: map_obj_to_commands_def render_update_def)


section \<open>Properties of the Diff Engine\<close>

lemma find_item_Some:
  "find_item have e = Inr (Some i) \<Longrightarrow>
   i \<in> set have \<and> (\<exists>iu eu. map_of i ''username'' = Some iu \<and> map_of e ''username'' = Some eu \<and> py_eq iu eu)"
  by (induction "have") (auto split: option.splits if_splits)

lemma find_item_nonempty: "find_item have e = Inr (Some i) \<Longrightarrow> i \<noteq> []"
  by (auto dest: find_item_Some)

lemma field_updates_replicate:
  "\<forall>kv \<in> set kvs. truthy (snd kv) \<longrightarrow> map_of item (fst kv) \<noteq> None \<Longrightarrow>
   field_updates entry item kvs =
     Inr (replicate (length (filter (\<lambda>kv. truthy (snd kv) \<and> \<not> py_eq (snd kv) (dget item (fst kv))) kvs))
            (entry, item))"
  by (induction kvs) (auto simp: dget_def)

lemma render_loop_replicate:
  "render_update up u = Inr cs \<Longrightarrow> render_loop up (replicate k u) = Inr (concat (replicate k cs))"
  by (induction k) auto

lemma update_entry_matched:
  assumes "find_item have entry = Inr (Some item)"
    and "map_of entry ''state'' = Some st"
    and "\<forall>kv \<in> set (iteritems entry). truthy (snd kv) \<longrightarrow> map_of item (fst kv) \<noteq> None"
  shows "update_entry have entry =
     Inr (replicate (length (filter (\<lambda>kv. truthy (snd kv) \<and> \<not> py_eq (snd kv) (dget item (fst kv)))
            (iteritems entry))) (entry, item))"
  using assms find_item_nonempty [OF assms(1)]
  by (simp add: update_entry_def field_updates_replicate)

text \<open>
  C7. Per-field pair emission. For a want record with state \<^verbatim>\<open>present\<close> that matches
  the have record \<open>item\<close>, let \<open>k\<close> be the number of its fields whose value is
  non-empty and differs from the have record's. The diff engine emits exactly \<open>k\<close>
  copies of the pair, and the command list is the commands of one pair, \<open>k\<close> times over:
  nothing is deduplicated.
\<close>

theorem per_field_pair_emission:
  assumes "find_item have entry = Inr (Some item)"
    and "map_of entry ''state'' = Some (PStr ''present'')"
    and "\<forall>kv \<in> set (iteritems entry). truthy (snd kv) \<longrightarrow> map_of item (fst kv) \<noteq> None"
    and "k = length (filter (\<lambda>kv. truthy (snd kv) \<and> \<not> py_eq (snd kv) (dget item (fst kv)))
                 (iteritems entry))"
  shows "update_objects [entry] have = Inr (replicate k (entry, item)) \<and>
     (\<exists>cs. map_obj_to_commands [(entry, item)] m = Inr cs \<and>
           reconcile [entry] have m = Inr (concat (replicate k cs)))"
proof -
  have upd: "update_objects [entry] have = Inr (replicate k (entry, item))"
    using update_entry_matched [OF assms(1,2,3)] assms(4) by (simp add: update_objects_def)
  obtain u where u: "map_of entry ''username'' = Some u"
    using find_item_Some [OF assms(1)] by blast
  obtain cs where cs: "render_update (update_password (params m)) (entry, item) = Inr cs"
    using render_update_total [OF u assms(2)] by blast
  have "reconcile [entry] have m = Inr (concat (replicate k cs))"
    using upd cs by (simp add: reconcile_def map_obj_to_commands_def render_loop_replicate)
  with upd cs show ?thesis by (simp add: map_obj_to_commands_def)
qed


lemma has_fields_map_of:
  "has_fields r \<Longrightarrow> k \<in> set record_keys \<Longrightarrow> map_of r k \<noteq> None"
  by (simp add: has_fields_def list_all_iff)

lemma has_fields_username: "has_fields r \<Longrightarrow> \<exists>u. map_of r ''username'' = Some u"
  using has_fields_map_of [of r "''username''"] by (auto simp: record_keys_def)

lemma has_fields_state: "has_fields r \<Longrightarrow> \<exists>st. map_of r ''state'' = Some st"
  using has_fields_map_of [of r "''state''"] by (auto simp: record_keys_def)

lemma find_item_total:
  "\<forall>h \<in> set have. has_fields h \<Longrightarrow> has_fields e \<Longrightarrow> \<exists>r. find_item have e = Inr r"
proof (induction "have")
  case Nil
  then show ?case by simp
next
  case (Cons h hs)
  obtain hu where "map_of h ''username'' = Some hu"
    using Cons.prems(1) has_fields_username by fastforce
  moreover obtain eu where "map_of e ''username'' = Some eu"
    using Cons.prems(2) has_fields_username by blast
  ultimately show ?case using Cons by auto
qed

lemma iteritems_subset: "set (iteritems e) \<subseteq> set e"
  unfolding iteritems_def
  by (metis distinct_clearjunk map_of_clearjunk map_of_eq_Some_iff map_of_SomeD subrelI)

lemma want_record_keys:
  assumes "want_record e" "has_fields h"
  shows "\<forall>kv \<in> set (iteritems e). truthy (snd kv) \<longrightarrow> map_of h (fst kv) \<noteq> None"
proof
  fix kv assume "kv \<in> set (iteritems e)"
  then have "kv \<in> set e" using iteritems_subset by blast
  then have "fst kv \<in> set record_keys"
    using assms(1) by (auto simp: want_record_def list_all_iff)
  then show "truthy (snd kv) \<longrightarrow> map_of h (fst kv) \<noteq> None"
    using has_fields_map_of [OF assms(2)] by blast
qed

lemma update_entry_total:
  assumes "\<forall>h \<in> set have. has_fields h" "want_record e"
  shows "\<exists>k i. update_entry have e = Inr (replicate k (e, i))"
proof -
  have hf: "has_fields e" using assms(2) by (simp add: want_record_def)
  obtain r where r: "find_item have e = Inr r" using find_item_total [OF assms(1) hf] by blast
  obtain st where st: "map_of e ''state'' = Some st" using has_fields_state [OF hf] by blast
  show ?thesis
  proof (cases r)
    case None
    then show ?thesis using r st
      by (cases "py_eq st (PStr ''present'')")
         (auto simp: update_entry_def intro: exI [of _ "Suc 0"] exI [of _ 0])
  next
    case (Some i)
    have "has_fields i" using find_item_Some r Some assms(1) by blast
    then show ?thesis
      using update_entry_matched [OF r [unfolded Some] st want_record_keys [OF assms(2)]] by blast
  qed
qed

lemma update_loop_total:
  assumes "\<forall>h \<in> set have. has_fields h" "\<forall>e \<in> set want. want_record e"
  shows "\<exists>ups. update_loop have want = Inr ups \<and> (\<forall>p \<in> set ups. fst p \<in> set want)"
  using assms(2)
proof (induction want)
  case Nil
  then show ?case by simp
next
  case (Cons e want)
  have "want_record e" using Cons.prems by simp
  then obtain k i where "update_entry have e = Inr (replicate k (e, i))"
    using update_entry_total [OF assms(1)] by blast
  moreover obtain ups where "update_loop have want = Inr ups" "\<forall>p \<in> set ups. fst p \<in> set want"
    using Cons by auto
  ultimately show ?case by auto
qed

lemma render_loop_total:
  "\<forall>p \<in> set ups. has_fields (fst p) \<Longrightarrow> \<exists>cmds. render_loop up ups = Inr cmds"
proof (induction ups)
  case Nil
  then show ?case by simp
next
  case (Cons p ups)
  obtain w h where p: "p = (w, h)" by (cases p)
  obtain u st where "map_of w ''username'' = Some u" "map_of w ''state'' = Some st"
    using Cons.prems p has_fields_username has_fields_state by fastforce
  then obtain cs where "render_update up p = Inr cs"
    using render_update_total p by blast
  moreover obtain cmds where "render_loop up ups = Inr cmds" using Cons by auto
  ultimately show ?case by simp
qed

lemma reconcile_total:
  assumes "\<forall>h \<in> set have. has_fields h" "\<forall>e \<in> set want. want_record e"
  shows "\<exists>cmds. reconcile want have m = Inr cmds"
proof -
  obtain ups where ups: "update_loop have want = Inr ups" "\<forall>p \<in> set ups. fst p \<in> set want"
    using update_loop_total [OF assms] by blast
  then have "\<forall>p \<in> set ups. has_fields (fst p)"
    using assms(2) by (auto simp: want_record_def)
  then obtain cmds where "render_loop (update_password (params m)) ups = Inr cmds"
    using render_loop_total by blast
  then show ?thesis using ups by (simp add: reconcile_def update_objects_def map_obj_to_commands_def)
qed

lemma update_loop_mem:
  "update_loop have want = Inr ups \<Longrightarrow> e \<in> set want \<Longrightarrow> update_entry have e = Inr es \<Longrightarrow>
   set es \<subseteq> set ups"
  by (induction want arbitrary: ups) (auto simp: seq_append_Inr_iff)

lemma render_loop_mem:
  "render_loop up ups = Inr cmds \<Longrightarrow> p \<in> set ups \<Longrightarrow> render_update up p = Inr cs \<Longrightarrow>
   set cs \<subseteq> set cmds"
  by (induction ups arbitrary: cmds) (auto simp: seq_append_Inr_iff)

theorem per_field_pair_emission_witness:
  "update_objects
      [[(''username'', PStr ''bob''), (''password'', PNone), (''nopassword'', PNone),
        (''privilege'', PInt 5), (''role'', PStr ''ops''), (''sshkey'', PNone),
        (''state'', PStr ''present'')]]
      [[(''username'', PStr ''bob''), (''state'', PStr ''present''),
        (''nopassword'', PBool False), (''password'', PNone), (''sshkey'', PNone),
        (''privilege'', PInt 7), (''role'', PStr ''dev'')]]
    = Inr (replicate 2
       ([(''username'', PStr ''bob''), (''password'', PNone), (''nopassword'', PNone),
         (''privilege'', PInt 5), (''role'', PStr ''ops''), (''sshkey'', PNone),
         (''state'', PStr ''present'')],
        [(''username'', PStr ''bob''), (''state'', PStr ''present''),
         (''nopassword'', PBool False), (''password'', PNone), (''sshkey'', PNone),
         (''privilege'', PInt 7), (''role'', PStr ''dev'')]))
   \<and> reconcile
      [[(''username'', PStr ''bob''), (''password'', PNone), (''nopassword'', PNone),
        (''privilege'', PInt 5), (''role'', PStr ''ops''), (''sshkey'', PNone),
        (''state'', PStr ''present'')]]
      [[(''username'', PStr ''bob''), (''state'', PStr ''present''),
        (''nopassword'', PBool False), (''password'', PNone), (''sshkey'', PNone),
        (''privilege'', PInt 7), (''role'', PStr ''dev'')]]
      \<lparr>params = \<lparr>users = None, username = Some ''bob'', password = None,
         nopassword = None, update_password = ''always'', privilege = Some 5,
         role = Some ''ops'', sshkey = None, purge = False, state = ''present''\<rparr>,
       check_mode = False, diff_mode = False, check_type = (\<lambda>t v. None)\<rparr>
    = Inr [''username bob role ops'', ''username bob privilege 5'',
           ''username bob role ops'', ''username bob privilege 5'']"
proof -
  let ?m = "\<lparr>params = \<lparr>users = None, username = Some ''bob'', password = None,
         nopassword = None, update_password = ''always'', privilege = Some 5,
         role = Some ''ops'', sshkey = None, purge = False, state = ''present''\<rparr>,
       check_mode = False, diff_mode = False, check_type = (\<lambda>t v. None)\<rparr>"
  let ?w = "[(''username'', PStr ''bob''), (''password'', PNone), (''nopassword'', PNone),
        (''privilege'', PInt 5), (''role'', PStr ''ops''), (''sshkey'', PNone),
        (''state'', PStr ''present'')]"
  let ?h = "[(''username'', PStr ''bob''), (''state'', PStr ''present''),
        (''nopassword'', PBool False), (''password'', PNone), (''sshkey'', PNone),
        (''privilege'', PInt 7), (''role'', PStr ''dev'')]"
  have p1: "find_item [?h] ?w = Inr (Some ?h)" by simp
  have p2: "map_of ?w ''state'' = Some (PStr ''present'')" by simp
  have p3: "\<forall>kv \<in> set (iteritems ?w). truthy (snd kv) \<longrightarrow> map_of ?h (fst kv) \<noteq> None"
    by (simp add: iteritems_def)
  have p4: "(2::nat) = length (filter (\<lambda>kv. truthy (snd kv) \<and> \<not> py_eq (snd kv) (dget ?h (fst kv)))
                 (iteritems ?w))"
    by (simp add: iteritems_def dget_def)
  have cs: "map_obj_to_commands [(?w, ?h)] ?m =
      Inr [''username bob role ops'', ''username bob privilege 5'']"
    by code_simp
  from per_field_pair_emission [OF p1 p2 p3 p4, of ?m] cs show ?thesis
    by (simp add: numeral_2_eq_2)
qed

end
